theory Spec2Isabelle
  imports Main "HOL-Library.Sublist"
begin

section \<open>The prompt library: terminal, results and builtins\<close>

text \<open>
  The module \<^verbatim>\<open>prompt/__init__.py\<close> reads one line from the terminal, checks it
  against a kind (character, email, integer, real, regex, secret, string, choice, boolean)
  and calls itself again when the line is rejected.

  \<^item> The terminal is a record: the lines still to be read and everything written so far
    (each prompt handed to \<^verbatim>\<open>input\<close>/\<^verbatim>\<open>getpass\<close> and each printed line, in order).
    Reading past the last line is Python's \<^verbatim>\<open>EOFError\<close>, so every call on a finite
    script returns.
  \<^item> A call returns \<open>Inl e\<close> when the exception \<open>e\<close> leaves the function, \<open>Inr None\<close>
    when it returns Python's \<^verbatim>\<open>None\<close> and \<open>Inr (Some v)\<close> when it returns \<open>v\<close>.
  \<^item> A \<open>char\<close> stands for one character of a Python string.
  \<^item> The builtins whose result the library only inspects are parameters of the functions
    that call them: \<^verbatim>\<open>int\<close> and \<^verbatim>\<open>float\<close> (\<open>None\<close> is their \<^verbatim>\<open>ValueError\<close>),
    \<^verbatim>\<open>re.match\<close> on a well-formed pattern (\<open>None\<close> is no match), \<^verbatim>\<open>str.lower\<close>, and
    truth value and \<^verbatim>\<open>str\<close> of a float.
  \<^item> The interpreter's bound on the depth of recursion is not part of the model.
\<close>

datatype error = ValueError | IndexError | EOFError

record io =
  stdin :: "string list"
  stdout :: "string list"

type_synonym 'a ret = "(error + 'a option) \<times> io"

definition PROMPT :: string where
  "PROMPT = ''? ''"

definition RE_EMAIL_SIMPLE :: string where
  "RE_EMAIL_SIMPLE = ''^[^@]+@[^@]+'' @ [CHR 0x5C] @ ''.[^@]+$''"

definition input :: "string \<Rightarrow> io \<Rightarrow> (error + string) \<times> io" where
  "input p w =
     (case stdin w of
        [] \<Rightarrow> (Inl EOFError, w\<lparr>stdout := stdout w @ [p]\<rparr>)
      | s # rest \<Rightarrow> (Inr s, \<lparr>stdin = rest, stdout = stdout w @ [p]\<rparr>))"

text \<open>\<^verbatim>\<open>getpass.getpass\<close> reads a line like \<^verbatim>\<open>input\<close>; the echo is not modelled.\<close>

definition getpass :: "string \<Rightarrow> io \<Rightarrow> (error + string) \<times> io" where
  "getpass p w = input p w"

definition print :: "string \<Rightarrow> io \<Rightarrow> io" where
  "print line w = w\<lparr>stdout := stdout w @ [line]\<rparr>"

subsection \<open>Truth values and \<^verbatim>\<open>str\<close> of the default values\<close>

definition str_bool :: "string \<Rightarrow> bool" where
  "str_bool s = (s \<noteq> [])"

definition int_bool :: "int \<Rightarrow> bool" where
  "int_bool n = (n \<noteq> 0)"

definition digit :: "nat \<Rightarrow> char" where
  "digit d = ''0123456789'' ! d"

fun str_nat :: "nat \<Rightarrow> string" where
  "str_nat n = (if n < 10 then [digit n] else str_nat (n div 10) @ [digit (n mod 10)])"

declare str_nat.simps [simp del]

definition str_int :: "int \<Rightarrow> string" where
  "str_int i = (if i < 0 then CHR ''-'' # str_nat (nat (- i)) else str_nat (nat i))"

subsection \<open>\<^verbatim>\<open>_make_prompt\<close>\<close>

text \<open>
  \<^verbatim>\<open>if not prompt\<close> holds for \<^verbatim>\<open>None\<close> and for the empty string; \<^verbatim>\<open>if default\<close>
  asks for the truth value of the default, so \<^verbatim>\<open>None\<close>, \<^verbatim>\<open>''\<close>, \<^verbatim>\<open>0\<close> and
  \<^verbatim>\<open>0.0\<close> all give the standard prompt.
\<close>

definition make_prompt ::
  "('a \<Rightarrow> bool) \<Rightarrow> ('a \<Rightarrow> string) \<Rightarrow> string option \<Rightarrow> 'a option \<Rightarrow> string" where
  "make_prompt truthy str prompt dflt =
     (case prompt of
        Some (c # cs) \<Rightarrow> c # cs
      | _ \<Rightarrow>
         (case dflt of
            Some d \<Rightarrow> if truthy d then ''['' @ str d @ '']? '' else PROMPT
          | None \<Rightarrow> PROMPT))"

lemma input_shorter:
  "(Inr s, w') = input p w \<Longrightarrow> length (stdin w') < length (stdin w)"
  by (auto simp: input_def split: list.splits)

lemma getpass_shorter:
  "(Inr s, w') = getpass p w \<Longrightarrow> length (stdin w') < length (stdin w)"
  by (simp add: getpass_def input_shorter)

section \<open>The prompt kinds\<close>

text \<open>
  Each function follows its source line by line. Where the source reaches the end of
  the function without a \<^verbatim>\<open>return\<close> (an empty line, no default, \<^verbatim>\<open>empty\<close> false),
  Python returns \<^verbatim>\<open>None\<close>: that is the third \<open>Inr None\<close> of the empty-line branch.
  The recursive calls pass exactly the arguments the source passes; an argument the
  source leaves out takes its default (\<open>None\<close> for \<^verbatim>\<open>default\<close>).
\<close>

function character :: "string option \<Rightarrow> bool \<Rightarrow> string option \<Rightarrow> io \<Rightarrow> string ret" where
  "character prompt empty_ok dflt w =
     (case input (make_prompt str_bool id prompt dflt) w of
        (Inl e, w') \<Rightarrow> (Inl e, w')
      | (Inr s, w') \<Rightarrow>
          if s = [] then
            (if dflt \<noteq> None then (Inr dflt, w')
             else if empty_ok then (Inr None, w')
             else (Inr None, w'))
          else if length s = 1 then (Inr (Some s), w')
          else character prompt empty_ok None w')"
  by pat_completeness auto
termination
  by (relation "measure (\<lambda>(p, e, d, w). length (stdin w))") (auto dest: input_shorter)

declare character.simps [simp del]

function email ::
  "(string \<Rightarrow> string \<Rightarrow> int \<Rightarrow> 'm option) \<Rightarrow> string option \<Rightarrow> bool \<Rightarrow> string \<Rightarrow>
   string option \<Rightarrow> io \<Rightarrow> string ret" where
  "email re_match prompt empty_ok mode dflt w =
     (if mode = ''simple'' then
        (case input (make_prompt str_bool id prompt dflt) w of
           (Inl e, w') \<Rightarrow> (Inl e, w')
         | (Inr s, w') \<Rightarrow>
             if s = [] then
               (if dflt \<noteq> None then (Inr dflt, w')
                else if empty_ok then (Inr None, w')
                else (Inr None, w'))
             else
               (case re_match RE_EMAIL_SIMPLE s 0 of
                  Some m \<Rightarrow> (Inr (Some s), w')
                | None \<Rightarrow> email re_match prompt empty_ok mode None w'))
      else (Inl ValueError, w))"
  by pat_completeness auto
termination
  by (relation "measure (\<lambda>(r, p, e, m, d, w). length (stdin w))") (auto dest: input_shorter)

declare email.simps [simp del]

function integer ::
  "(string \<Rightarrow> int option) \<Rightarrow> string option \<Rightarrow> bool \<Rightarrow> int option \<Rightarrow> io \<Rightarrow> int ret" where
  "integer py_int prompt empty_ok dflt w =
     (case input (make_prompt int_bool str_int prompt dflt) w of
        (Inl e, w') \<Rightarrow> (Inl e, w')
      | (Inr s, w') \<Rightarrow>
          if s = [] then
            (if dflt \<noteq> None then (Inr dflt, w')
             else if empty_ok then (Inr None, w')
             else (Inr None, w'))
          else
            (case py_int s of
               Some n \<Rightarrow> (Inr (Some n), w')
             | None \<Rightarrow> integer py_int prompt empty_ok None w'))"
  by pat_completeness auto
termination
  by (relation "measure (\<lambda>(i, p, e, d, w). length (stdin w))") (auto dest: input_shorter)

declare integer.simps [simp del]

function real ::
  "(string \<Rightarrow> 'f option) \<Rightarrow> ('f \<Rightarrow> bool) \<Rightarrow> ('f \<Rightarrow> string) \<Rightarrow> string option \<Rightarrow> bool \<Rightarrow>
   'f option \<Rightarrow> io \<Rightarrow> 'f ret" where
  "real py_float float_bool float_str prompt empty_ok dflt w =
     (case input (make_prompt float_bool float_str prompt dflt) w of
        (Inl e, w') \<Rightarrow> (Inl e, w')
      | (Inr s, w') \<Rightarrow>
          if s = [] then
            (if dflt \<noteq> None then (Inr dflt, w')
             else if empty_ok then (Inr None, w')
             else (Inr None, w'))
          else
            (case py_float s of
               Some x \<Rightarrow> (Inr (Some x), w')
             | None \<Rightarrow> real py_float float_bool float_str prompt empty_ok None w'))"
  by pat_completeness auto
termination
  by (relation "measure (\<lambda>(f, b, s, p, e, d, w). length (stdin w))") (auto dest: input_shorter)

declare real.simps [simp del]

text \<open>
  \<^verbatim>\<open>regex\<close> is the one kind whose empty-line branch does not return the default: it
  replaces the line by the default and goes on to the match; with no default and
  \<^verbatim>\<open>empty\<close> false the empty line itself goes on to the match. The only \<^verbatim>\<open>return\<close>
  of that branch (an empty line, no default, \<^verbatim>\<open>empty\<close> true) is the first test below.
\<close>

function regex ::
  "(string \<Rightarrow> string \<Rightarrow> int \<Rightarrow> 'm option) \<Rightarrow> string \<Rightarrow> string option \<Rightarrow> bool \<Rightarrow> int \<Rightarrow>
   string option \<Rightarrow> io \<Rightarrow> 'm ret" where
  "regex re_match pattern prompt empty_ok flags dflt w =
     (case input (make_prompt str_bool id prompt dflt) w of
        (Inl e, w') \<Rightarrow> (Inl e, w')
      | (Inr s, w') \<Rightarrow>
          if s = [] \<and> dflt = None \<and> empty_ok then (Inr None, w')
          else
            (let s = (if s = [] then (case dflt of Some d \<Rightarrow> d | None \<Rightarrow> s) else s) in
             case re_match pattern s flags of
               Some m \<Rightarrow> (Inr (Some m), w')
             | None \<Rightarrow> regex re_match pattern prompt empty_ok flags None w'))"
  by pat_completeness auto
termination
  by (relation "measure (\<lambda>(r, pa, p, e, f, d, w). length (stdin w))") (auto dest: input_shorter)

declare regex.simps [simp del]

function secret :: "string option \<Rightarrow> bool \<Rightarrow> string option \<Rightarrow> io \<Rightarrow> string ret" where
  "secret prompt empty_ok dflt w =
     (case getpass (make_prompt str_bool id prompt dflt) w of
        (Inl e, w') \<Rightarrow> (Inl e, w')
      | (Inr s, w') \<Rightarrow>
          if s = [] then
            (if dflt \<noteq> None then (Inr dflt, w')
             else if empty_ok then (Inr None, w')
             else (Inr None, w'))
          else if str_bool s then (Inr (Some s), w')
          else secret prompt empty_ok None w')"
  by pat_completeness auto
termination
  by (relation "measure (\<lambda>(p, e, d, w). length (stdin w))") (auto simp: str_bool_def)

declare secret.simps [simp del]

function string :: "string option \<Rightarrow> bool \<Rightarrow> string option \<Rightarrow> io \<Rightarrow> string ret" where
  "string prompt empty_ok dflt w =
     (case input (make_prompt str_bool id prompt dflt) w of
        (Inl e, w') \<Rightarrow> (Inl e, w')
      | (Inr s, w') \<Rightarrow>
          if s = [] then
            (if dflt \<noteq> None then (Inr dflt, w')
             else if empty_ok then (Inr None, w')
             else (Inr None, w'))
          else if str_bool s then (Inr (Some s), w')
          else string prompt empty_ok None w')"
  by pat_completeness auto
termination
  by (relation "measure (\<lambda>(p, e, d, w). length (stdin w))") (auto simp: str_bool_def)

declare string.simps [simp del]

subsection \<open>\<^verbatim>\<open>choice\<close>\<close>

text \<open>
  The choices are strings, as the docstring says. The \<^verbatim>\<open>for\<close> loop
  (\<open>print_choices\<close>) prints one line for each choice, numbered from 1 (\<open>choice_line\<close>).
  The body of the \<^verbatim>\<open>try\<close> block is \<open>pick\<close>: \<^verbatim>\<open>int(s)\<close> raises \<^verbatim>\<open>ValueError\<close>,
  a number below 1 raises it by hand, and \<^verbatim>\<open>choices[num]\<close> with \<open>num\<close> beyond the
  last position raises \<^verbatim>\<open>IndexError\<close>; the handler catches both.
\<close>

definition choice_line :: "nat \<times> string \<Rightarrow> string" where
  "choice_line = (\<lambda>(num, cho). ''    '' @ str_int (int num + 1) @ '': '' @ cho)"

definition print_choices :: "string list \<Rightarrow> io \<Rightarrow> io" where
  "print_choices choices w = fold (\<lambda>nc. print (choice_line nc)) (enumerate 0 choices) w"

definition pick :: "(string \<Rightarrow> int option) \<Rightarrow> string list \<Rightarrow> string \<Rightarrow> error + string" where
  "pick py_int choices s =
     (case py_int s of
        None \<Rightarrow> Inl ValueError
      | Some i \<Rightarrow>
          (let num = i - 1 in
           if num < 0 then Inl ValueError
           else if num < int (length choices) then Inr (choices ! nat num)
           else Inl IndexError))"

lemma stdin_print [simp]: "stdin (print line w) = stdin w"
  by (simp add: print_def)

lemma stdin_fold_print [simp]: "stdin (fold (\<lambda>x. print (f x)) xs w) = stdin w"
  by (induction xs arbitrary: w) simp_all

lemma stdin_print_choices [simp]: "stdin (print_choices choices w) = stdin w"
  by (simp add: print_choices_def)

function choice ::
  "(string \<Rightarrow> int option) \<Rightarrow> string list \<Rightarrow> string \<Rightarrow> string option \<Rightarrow> bool \<Rightarrow>
   string option \<Rightarrow> io \<Rightarrow> string ret" where
  "choice py_int choices instruction prompt empty_ok dflt w =
     (if length choices < 1 then (Inl ValueError, w)
      else
        (case input (make_prompt str_bool id prompt dflt)
                (print_choices choices (print instruction w)) of
           (Inl e, w') \<Rightarrow> (Inl e, w')
         | (Inr s, w') \<Rightarrow>
             (case pick py_int choices s of
                Inr c \<Rightarrow> (Inr (Some c), w')
              | Inl e \<Rightarrow>
                  if s = [] then
                    (if dflt \<noteq> None then (Inr dflt, w')
                     else if empty_ok then (Inr None, w')
                     else (Inr None, w'))
                  else choice py_int choices instruction prompt empty_ok None w')))"
  by pat_completeness auto
termination
  by (relation "measure (\<lambda>(i, c, ins, p, e, d, w). length (stdin w))")
     (auto dest: input_shorter)

declare choice.simps [simp del]

subsection \<open>\<^verbatim>\<open>boolean\<close>\<close>

text \<open>
  The nested functions \<^verbatim>\<open>norm\<close> and \<^verbatim>\<open>to_bool\<close> take the variables they close over
  as arguments. \<^verbatim>\<open>to_bool\<close> raises \<^verbatim>\<open>ValueError\<close> when no branch returns. The prompt
  is built only when the caller gave none (\<^verbatim>\<open>prompt is None\<close>); the recursive call
  passes the prompt that was shown, and every other argument as it came in.
\<close>

definition startswith :: "string \<Rightarrow> string \<Rightarrow> bool" where
  "startswith s p = prefix p s"

definition norm :: "(string \<Rightarrow> string) \<Rightarrow> bool \<Rightarrow> string \<Rightarrow> string" where
  "norm lower sensitive x = (if sensitive then x else lower x)"

definition to_bool ::
  "(string \<Rightarrow> string) \<Rightarrow> string \<Rightarrow> string \<Rightarrow> bool \<Rightarrow> bool \<Rightarrow> string \<Rightarrow> error + bool" where
  "to_bool lower yes no sensitive partial c =
     (if partial \<and> length c \<noteq> 0 then
        (if startswith (norm lower sensitive yes) (norm lower sensitive c) then Inr True
         else if startswith (norm lower sensitive no) (norm lower sensitive c) then Inr False
         else Inl ValueError)
      else
        (if norm lower sensitive yes = norm lower sensitive c then Inr True
         else if norm lower sensitive no = norm lower sensitive c then Inr False
         else Inl ValueError))"

definition boolean_prompt :: "string option \<Rightarrow> string \<Rightarrow> string \<Rightarrow> bool option \<Rightarrow> string" where
  "boolean_prompt prompt yes no dflt =
     (case prompt of
        None \<Rightarrow>
          (let y = (if dflt = Some True then ''['' @ yes @ '']'' else yes);
               n = (if dflt = Some False then ''['' @ no @ '']'' else no)
           in y @ ''/'' @ n @ ''? '')
      | Some p \<Rightarrow> p)"

function boolean ::
  "(string \<Rightarrow> string) \<Rightarrow> string option \<Rightarrow> string \<Rightarrow> string \<Rightarrow> bool option \<Rightarrow> bool \<Rightarrow> bool \<Rightarrow>
   io \<Rightarrow> bool ret" where
  "boolean lower prompt yes no dflt sensitive partial w =
     (case input (boolean_prompt prompt yes no dflt) w of
        (Inl e, w') \<Rightarrow> (Inl e, w')
      | (Inr s, w') \<Rightarrow>
          if dflt \<noteq> None \<and> s = [] then (Inr dflt, w')
          else
            (case to_bool lower yes no sensitive partial s of
               Inr b \<Rightarrow> (Inr (Some b), w')
             | Inl e \<Rightarrow>
                 boolean lower (Some (boolean_prompt prompt yes no dflt)) yes no dflt
                   sensitive partial w'))"
  by pat_completeness auto
termination
  by (relation "measure (\<lambda>(l, p, y, n, d, s, pa, w). length (stdin w))")
     (auto dest: input_shorter)

declare boolean.simps [simp del]

subsection \<open>Builtins for running the functions on examples\<close>

text \<open>
  To run the functions on a script, \<^verbatim>\<open>int\<close> is given on plain decimal numerals (an
  optional sign, then digits), \<^verbatim>\<open>re.match\<close> on patterns without metacharacters (the
  text matches when it starts with the pattern, and the match object is shown as the
  matched text), and \<^verbatim>\<open>str.lower\<close> on ASCII letters.
\<close>

definition digit_value :: "char \<Rightarrow> nat option" where
  "digit_value c = map_of (zip ''0123456789'' [0 ..< 10]) c"

fun decimal :: "nat \<Rightarrow> string \<Rightarrow> nat option" where
  "decimal acc [] = Some acc"
| "decimal acc (c # cs) =
     (case digit_value c of None \<Rightarrow> None | Some d \<Rightarrow> decimal (10 * acc + d) cs)"

fun plain_int :: "string \<Rightarrow> int option" where
  "plain_int [] = None"
| "plain_int (c # cs) =
     (if c = CHR ''-'' then (if cs = [] then None else map_option (\<lambda>n. - int n) (decimal 0 cs))
      else if c = CHR ''+'' then (if cs = [] then None else map_option int (decimal 0 cs))
      else map_option int (decimal 0 (c # cs)))"

definition literal_match :: "string \<Rightarrow> string \<Rightarrow> int \<Rightarrow> string option" where
  "literal_match pattern s flags = (if prefix pattern s then Some pattern else None)"

definition ascii_lower :: "string \<Rightarrow> string" where
  "ascii_lower s =
     map (\<lambda>c. case map_of (zip ''ABCDEFGHIJKLMNOPQRSTUVWXYZ'' ''abcdefghijklmnopqrstuvwxyz'') c of
                None \<Rightarrow> c | Some l \<Rightarrow> l) s"

section \<open>One step of each kind on a line of input\<close>

text \<open>
  When a line is waiting, \<^verbatim>\<open>input\<close> hands it over and records the prompt. The
  lemmas below unfold one call of a kind on such a terminal.
\<close>

lemma input_line:
  "stdin w = s # rest \<Longrightarrow> input p w = (Inr s, \<lparr>stdin = rest, stdout = stdout w @ [p]\<rparr>)"
  by (simp add: input_def)

lemma character_default:
  "stdin w = [] # rest \<Longrightarrow>
   character prompt empty_ok (Some d) w =
     (Inr (Some d), \<lparr>stdin = rest, stdout = stdout w @ [make_prompt str_bool id prompt (Some d)]\<rparr>)"
  by (subst character.simps) (simp add: input_line)

lemma email_default:
  "stdin w = [] # rest \<Longrightarrow>
   email re_match prompt empty_ok ''simple'' (Some d) w =
     (Inr (Some d), \<lparr>stdin = rest, stdout = stdout w @ [make_prompt str_bool id prompt (Some d)]\<rparr>)"
  by (subst email.simps) (simp add: input_line)

lemma integer_default:
  "stdin w = [] # rest \<Longrightarrow>
   integer py_int prompt empty_ok (Some d) w =
     (Inr (Some d), \<lparr>stdin = rest, stdout = stdout w @ [make_prompt int_bool str_int prompt (Some d)]\<rparr>)"
  by (subst integer.simps) (simp add: input_line)

lemma real_default:
  "stdin w = [] # rest \<Longrightarrow>
   real py_float float_bool float_str prompt empty_ok (Some d) w =
     (Inr (Some d), \<lparr>stdin = rest, stdout = stdout w @ [make_prompt float_bool float_str prompt (Some d)]\<rparr>)"
  by (subst real.simps) (simp add: input_line)

lemma secret_default:
  "stdin w = [] # rest \<Longrightarrow>
   secret prompt empty_ok (Some d) w =
     (Inr (Some d), \<lparr>stdin = rest, stdout = stdout w @ [make_prompt str_bool id prompt (Some d)]\<rparr>)"
  by (subst secret.simps) (simp add: input_line getpass_def)

lemma string_default:
  "stdin w = [] # rest \<Longrightarrow>
   string prompt empty_ok (Some d) w =
     (Inr (Some d), \<lparr>stdin = rest, stdout = stdout w @ [make_prompt str_bool id prompt (Some d)]\<rparr>)"
  by (subst string.simps) (simp add: input_line)

lemma stdout_print [simp]: "stdout (print line w) = stdout w @ [line]"
  by (simp add: print_def)

lemma stdout_fold_print [simp]:
  "stdout (fold (\<lambda>x. print (f x)) xs w) = stdout w @ map f xs"
  by (induction xs arbitrary: w) simp_all

lemma stdout_print_choices [simp]:
  "stdout (print_choices choices w) = stdout w @ map choice_line (enumerate 0 choices)"
  by (simp add: print_choices_def)

lemma choice_default:
  "stdin w = [] # rest \<Longrightarrow> choices \<noteq> [] \<Longrightarrow> py_int [] = None \<Longrightarrow>
   choice py_int choices instruction prompt empty_ok (Some d) w =
     (Inr (Some d), \<lparr>stdin = rest, stdout = stdout w @ instruction # map choice_line (enumerate 0 choices) @ [make_prompt str_bool id prompt (Some d)]\<rparr>)"
  by (subst choice.simps) (simp add: input_line pick_def)

lemma boolean_default:
  "stdin w = [] # rest \<Longrightarrow>
   boolean lower prompt yes no (Some d) sensitive partial w =
     (Inr (Some d), \<lparr>stdin = rest, stdout = stdout w @ [boolean_prompt prompt yes no (Some d)]\<rparr>)"
  by (subst boolean.simps) (simp add: input_line)

lemma regex_line:
  "stdin w = s # rest \<Longrightarrow>
   regex re_match pattern prompt empty_ok flags dflt w =
     (let w' = \<lparr>stdin = rest, stdout = stdout w @ [make_prompt str_bool id prompt dflt]\<rparr> in
      if s = [] \<and> dflt = None \<and> empty_ok then (Inr None, w')
      else
        (case re_match pattern (if s = [] then (case dflt of Some d \<Rightarrow> d | None \<Rightarrow> s) else s)
                flags of
           Some m \<Rightarrow> (Inr (Some m), w')
         | None \<Rightarrow> regex re_match pattern prompt empty_ok flags None w'))"
  by (subst regex.simps) (simp add: input_line Let_def)

lemma choice_line_step:
  "choices \<noteq> [] \<Longrightarrow> stdin w = s # rest \<Longrightarrow>
   choice py_int choices instruction prompt empty_ok dflt w =
     (let w' = \<lparr>stdin = rest,
                 stdout = stdout w @ instruction # map choice_line (enumerate 0 choices)
                            @ [make_prompt str_bool id prompt dflt]\<rparr> in
      case pick py_int choices s of
        Inr c \<Rightarrow> (Inr (Some c), w')
      | Inl e \<Rightarrow>
          if s = [] then (if dflt \<noteq> None then (Inr dflt, w') else (Inr None, w'))
          else choice py_int choices instruction prompt empty_ok None w')"
  by (subst choice.simps) (simp add: input_line Let_def cong: sum.case_cong)

text \<open>
  Every call of \<^verbatim>\<open>choice\<close> on at least one choice writes the instruction and the
  numbered choices first, and nothing it does later removes them.
\<close>

lemma choice_shows_menu:
  "choices \<noteq> [] \<Longrightarrow>
   prefix (stdout w @ instruction # map choice_line (enumerate 0 choices))
     (stdout (snd (choice py_int choices instruction prompt empty_ok dflt w)))"
proof (induction py_int choices instruction prompt empty_ok dflt w rule: choice.induct)
  case (1 py_int choices instruction prompt empty_ok dflt w)
  let ?menu = "instruction # map choice_line (enumerate 0 choices)"
  show ?case
  proof (cases "stdin w")
    case Nil
    then show ?thesis
      using "1.prems" by (subst choice.simps) (simp add: input_def)
  next
    case (Cons s rest)
    let ?w = "\<lparr>stdin = rest, stdout = stdout w @ ?menu @ [make_prompt str_bool id prompt dflt]\<rparr>"
    have inp: "input (make_prompt str_bool id prompt dflt)
                 (print_choices choices (print instruction w)) = (Inr s, ?w)"
      using Cons by (simp add: input_line)
    show ?thesis
    proof (cases "pick py_int choices s")
      case (Inr c)
      then show ?thesis
        using "1.prems" Cons by (simp add: choice_line_step Let_def)
    next
      case (Inl e)
      show ?thesis
      proof (cases "s = []")
        case True
        then show ?thesis
          using "1.prems" Cons Inl by (simp add: choice_line_step Let_def)
      next
        case False
        have "prefix (stdout ?w @ ?menu)
                (stdout (snd (choice py_int choices instruction prompt empty_ok None ?w)))"
          using "1.prems" inp Inl False by (intro "1.IH") (simp_all add: not_less)
        then have "prefix (stdout w @ ?menu)
                (stdout (snd (choice py_int choices instruction prompt empty_ok None ?w)))"
          by (auto simp: prefix_def)
        then show ?thesis
          using "1.prems" Cons Inl False by (simp add: choice_line_step Let_def)
      qed
    qed
  qed
qed

text \<open>
  \<^verbatim>\<open>boolean\<close> calls itself with the prompt it has just shown. A prompt given by the
  caller is shown as it is, so the call with the shown prompt does what the call with the
  original prompt does.
\<close>

lemma boolean_prompt_shown:
  "boolean_prompt (Some (boolean_prompt prompt yes no dflt)) yes no dflt =
   boolean_prompt prompt yes no dflt"
  by (simp add: boolean_prompt_def)

lemma boolean_with_shown_prompt:
  "boolean lower (Some (boolean_prompt prompt yes no dflt)) yes no dflt sensitive partial w =
   boolean lower prompt yes no dflt sensitive partial w"
  by (subst boolean.simps, subst (2) boolean.simps)
     (simp add: boolean_prompt_shown cong: prod.case_cong sum.case_cong if_cong)

lemma boolean_line:
  "stdin w = s # rest \<Longrightarrow>
   boolean lower prompt yes no dflt sensitive partial w =
     (if dflt \<noteq> None \<and> s = [] then
        (Inr dflt, \<lparr>stdin = rest, stdout = stdout w @ [boolean_prompt prompt yes no dflt]\<rparr>)
      else
        (case to_bool lower yes no sensitive partial s of
           Inr b \<Rightarrow>
             (Inr (Some b),
              \<lparr>stdin = rest, stdout = stdout w @ [boolean_prompt prompt yes no dflt]\<rparr>)
         | Inl e \<Rightarrow>
             boolean lower prompt yes no dflt sensitive partial
               \<lparr>stdin = rest, stdout = stdout w @ [boolean_prompt prompt yes no dflt]\<rparr>))"
  by (subst boolean.simps)
     (simp add: input_line boolean_with_shown_prompt cong: sum.case_cong)

lemma boolean_after_failures:
  "\<forall>s \<in> set bad. s \<noteq> [] \<and> to_bool lower yes no sensitive partial s = Inl ValueError \<Longrightarrow>
   stdin w = bad @ [] # rest \<Longrightarrow>
   boolean lower prompt yes no (Some d) sensitive partial w =
     (Inr (Some d),
      \<lparr>stdin = rest,
         stdout = stdout w @ replicate (Suc (length bad)) (boolean_prompt prompt yes no (Some d))\<rparr>)"
proof (induction bad arbitrary: w)
  case Nil
  then show ?case by (simp add: boolean_line)
next
  case (Cons s bad)
  let ?p = "boolean_prompt prompt yes no (Some d)"
  let ?w = "\<lparr>stdin = bad @ [] # rest, stdout = stdout w @ [?p]\<rparr>"
  from Cons.prems have s: "s \<noteq> []" "to_bool lower yes no sensitive partial s = Inl ValueError"
    and w: "stdin w = s # (bad @ [] # rest)"
    by simp_all
  have "boolean lower prompt yes no (Some d) sensitive partial w =
        boolean lower prompt yes no (Some d) sensitive partial ?w"
    using s by (simp add: boolean_line [OF w])
  also have "\<dots> = (Inr (Some d),
      \<lparr>stdin = rest, stdout = stdout ?w @ replicate (Suc (length bad)) ?p\<rparr>)"
    using Cons.prems by (intro Cons.IH) simp_all
  finally show ?case by (simp add: replicate_append_same)
qed

section \<open>Properties of the prompt kinds\<close>

subsection \<open>An empty line without a default\<close>

text \<open>
  C1. The docstrings promise \<^verbatim>\<open>None\<close> only for an empty line when \<^verbatim>\<open>empty\<close> is
  true, and an empty line that is not allowed should prompt again. The empty-line branch
  of \<^verbatim>\<open>character\<close>, \<^verbatim>\<open>email\<close>, \<^verbatim>\<open>integer\<close>, \<^verbatim>\<open>real\<close>, \<^verbatim>\<open>secret\<close>,
  \<^verbatim>\<open>string\<close> and \<^verbatim>\<open>choice\<close> has no \<^verbatim>\<open>else\<close>: with no default and \<^verbatim>\<open>empty\<close>
  false the function ends there and returns \<^verbatim>\<open>None\<close> after a single prompt. Here
  \<^verbatim>\<open>character()\<close> and \<^verbatim>\<open>integer()\<close> read one empty line.
\<close>

theorem empty_line_returns_none:
  "character None False None \<lparr>stdin = [''''], stdout = []\<rparr> =
     (Inr None, \<lparr>stdin = [], stdout = [''? '']\<rparr>)
   \<and> integer plain_int None False None \<lparr>stdin = [''''], stdout = []\<rparr> =
     (Inr None, \<lparr>stdin = [], stdout = [''? '']\<rparr>)"
  by (simp add: character.simps integer.simps input_def make_prompt_def PROMPT_def)

subsection \<open>The call after a rejected line\<close>

text \<open>
  C2. A rejected line should lead to a call with the original parameters, so that a later
  empty line still returns the default. Every kind but \<^verbatim>\<open>boolean\<close> leaves
  \<^verbatim>\<open>default\<close> out of its recursive call. Here \<^verbatim>\<open>character(empty=True, default='c')\<close>
  reads \<^verbatim>\<open>ab\<close>, which is rejected, and then an empty line: the second prompt is
  \<^verbatim>\<open>? \<close> instead of \<^verbatim>\<open>[c]? \<close> and the result is \<^verbatim>\<open>None\<close> instead of \<^verbatim>\<open>c\<close>.
\<close>

theorem retry_drops_default:
  "character None True (Some ''c'') \<lparr>stdin = [''ab'', ''''], stdout = []\<rparr> =
     (Inr None, \<lparr>stdin = [], stdout = [''[c]? '', ''? '']\<rparr>)"
  by (simp add: character.simps input_def make_prompt_def PROMPT_def str_bool_def)

subsection \<open>An empty line with a default\<close>

text \<open>
  C3. For every kind except regex, an empty line with a default supplied should return
  that default, whatever \<^verbatim>\<open>empty\<close> is. The code does so only while no line has been
  rejected: the recursive call leaves \<^verbatim>\<open>default\<close> out, as in C2. Here
  \<^verbatim>\<open>integer(empty=True, default=7)\<close> reads \<^verbatim>\<open>x\<close>, which is rejected, and then an
  empty line: the result is \<^verbatim>\<open>None\<close> instead of \<^verbatim>\<open>7\<close>.
\<close>

theorem default_lost_after_rejected_line:
  "integer plain_int None True (Some 7) \<lparr>stdin = [''x'', ''''], stdout = []\<rparr> =
     (Inr None, \<lparr>stdin = [], stdout = [''[7]? '', ''? '']\<rparr>)"
proof -
  have n: "str_nat 7 = ''7''"
    by (simp add: str_nat.simps digit_def)
  have x: "plain_int ''x'' = None"
    by (simp add: digit_value_def upt_rec)
  show ?thesis
    by (simp add: integer.simps input_def make_prompt_def PROMPT_def int_bool_def str_int_def
          n x del: plain_int.simps)
qed

text \<open>
  On the first prompt of a call the default is returned, whatever \<^verbatim>\<open>empty\<close> is and
  whatever the default looks like: the result does not depend on the kind's check, so a
  default that the check would reject (three characters for \<^verbatim>\<open>character\<close>, a default
  outside the choices) is returned all the same. \<^verbatim>\<open>choice\<close> tries \<^verbatim>\<open>int\<close> on the
  empty line first, which raises \<^verbatim>\<open>ValueError\<close>, and reaches the default in the
  handler.
\<close>

lemma default_returned_on_first_empty_line:
  assumes "stdin w = [] # rest" and "choices \<noteq> []" and "py_int [] = None"
  shows "character prompt empty_ok (Some d) w =
           (Inr (Some d),
            \<lparr>stdin = rest, stdout = stdout w @ [make_prompt str_bool id prompt (Some d)]\<rparr>)
       \<and> email re_match prompt empty_ok ''simple'' (Some d) w =
           (Inr (Some d),
            \<lparr>stdin = rest, stdout = stdout w @ [make_prompt str_bool id prompt (Some d)]\<rparr>)
       \<and> integer py_int prompt empty_ok (Some i) w =
           (Inr (Some i),
            \<lparr>stdin = rest, stdout = stdout w @ [make_prompt int_bool str_int prompt (Some i)]\<rparr>)
       \<and> real py_float float_bool float_str prompt empty_ok (Some x) w =
           (Inr (Some x),
            \<lparr>stdin = rest,
               stdout = stdout w @ [make_prompt float_bool float_str prompt (Some x)]\<rparr>)
       \<and> secret prompt empty_ok (Some d) w =
           (Inr (Some d),
            \<lparr>stdin = rest, stdout = stdout w @ [make_prompt str_bool id prompt (Some d)]\<rparr>)
       \<and> string prompt empty_ok (Some d) w =
           (Inr (Some d),
            \<lparr>stdin = rest, stdout = stdout w @ [make_prompt str_bool id prompt (Some d)]\<rparr>)
       \<and> choice py_int choices instruction prompt empty_ok (Some d) w =
           (Inr (Some d),
            \<lparr>stdin = rest,
               stdout = stdout w @ instruction # map choice_line (enumerate 0 choices)
                          @ [make_prompt str_bool id prompt (Some d)]\<rparr>)
       \<and> boolean lower prompt' yes no (Some b) sensitive partial w =
           (Inr (Some b),
            \<lparr>stdin = rest, stdout = stdout w @ [boolean_prompt prompt' yes no (Some b)]\<rparr>)"
  using assms
  by (simp only: character_default email_default integer_default real_default secret_default
        string_default choice_default boolean_default simp_thms)

lemma default_returned_on_first_empty_line_example:
  "stdin \<lparr>stdin = [''''], stdout = []\<rparr> = [] # []
   \<and> [''moe'', ''curly''] \<noteq> []
   \<and> plain_int [] = None
   \<and> character None False (Some ''abc'') \<lparr>stdin = [''''], stdout = []\<rparr> =
        (Inr (Some ''abc''), \<lparr>stdin = [], stdout = [''[abc]? '']\<rparr>)
   \<and> email (\<lambda>p s f. None :: unit option) None False ''simple'' (Some ''abc'')
        \<lparr>stdin = [''''], stdout = []\<rparr> =
        (Inr (Some ''abc''), \<lparr>stdin = [], stdout = [''[abc]? '']\<rparr>)
   \<and> integer plain_int None False (Some 7) \<lparr>stdin = [''''], stdout = []\<rparr> =
        (Inr (Some 7), \<lparr>stdin = [], stdout = [''[7]? '']\<rparr>)
   \<and> real (\<lambda>s. None) (\<lambda>x. x \<noteq> (0::int)) str_int None False (Some 7)
        \<lparr>stdin = [''''], stdout = []\<rparr> =
        (Inr (Some 7), \<lparr>stdin = [], stdout = [''[7]? '']\<rparr>)
   \<and> secret None False (Some ''abc'') \<lparr>stdin = [''''], stdout = []\<rparr> =
        (Inr (Some ''abc''), \<lparr>stdin = [], stdout = [''[abc]? '']\<rparr>)
   \<and> string None False (Some ''abc'') \<lparr>stdin = [''''], stdout = []\<rparr> =
        (Inr (Some ''abc''), \<lparr>stdin = [], stdout = [''[abc]? '']\<rparr>)
   \<and> choice plain_int [''moe'', ''curly''] ''Pick: '' None False (Some ''abc'')
        \<lparr>stdin = [''''], stdout = []\<rparr> =
        (Inr (Some ''abc''),
         \<lparr>stdin = [], stdout = [''Pick: '', ''    1: moe'', ''    2: curly'', ''[abc]? '']\<rparr>)
   \<and> boolean ascii_lower None ''y'' ''n'' (Some False) False True
        \<lparr>stdin = [''''], stdout = []\<rparr> =
        (Inr (Some False), \<lparr>stdin = [], stdout = [''y/[n]? '']\<rparr>)"
proof -
  have h1: "stdin \<lparr>stdin = [''''], stdout = []\<rparr> = [] # []" by simp
  have h2: "[''moe'', ''curly''] \<noteq> []" by simp
  have h3: "plain_int [] = None" by simp
  have e: "enumerate 0 [''moe'', ''curly''] = [(0, ''moe''), (Suc 0, ''curly'')]"
    by (simp add: enumerate_eq_zip upt_rec)
  have n: "str_nat (Suc 0) = ''1''" "str_nat 2 = ''2''" "str_nat 7 = ''7''"
    by (simp_all add: str_nat.simps digit_def)
  show ?thesis
    using default_returned_on_first_empty_line [where w = "\<lparr>stdin = [[]], stdout = []\<rparr>"
        and rest = "[]" and choices = "[''moe'', ''curly'']" and py_int = plain_int
        and prompt = None and empty_ok = False and d = "''abc''"
        and re_match = "\<lambda>p s f. None :: unit option" and i = 7
        and py_float = "\<lambda>s. None" and float_bool = "\<lambda>x. x \<noteq> (0::int)"
        and float_str = str_int and x = 7 and instruction = "''Pick: ''"
        and lower = ascii_lower and prompt' = None and yes = "''y''" and no = "''n''"
        and b = False and sensitive = False and partial = True, OF h1 h2 h3]
    by (simp add: make_prompt_def str_bool_def int_bool_def str_int_def boolean_prompt_def
        choice_line_def e n)
qed

subsection \<open>The default of \<^verbatim>\<open>regex\<close>\<close>

text \<open>
  C4. For \<^verbatim>\<open>regex\<close> an empty line with a default is replaced by the default, which is
  then matched; when it does not match, the prompt is repeated, and as long as the default
  does not match this should go on for every further empty line. The recursive call leaves
  \<^verbatim>\<open>default\<close> out, as in C2. Here \<^verbatim>\<open>regex('foo', empty=True, default='bar')\<close> reads
  two empty lines: the first is replaced by \<^verbatim>\<open>bar\<close>, which does not match; the second
  is no longer replaced and the call returns \<^verbatim>\<open>None\<close>.
\<close>

theorem regex_retry_drops_default:
  "regex literal_match ''foo'' None True 0 (Some ''bar'')
     \<lparr>stdin = ['''', ''''], stdout = []\<rparr> =
     (Inr None, \<lparr>stdin = [], stdout = [''[bar]? '', ''? '']\<rparr>)"
  by (simp add: regex.simps input_def make_prompt_def PROMPT_def str_bool_def literal_match_def)

subsection \<open>The prompt text\<close>

text \<open>
  An empty prompt string is not shown as it is, and a default of \<open>0\<close> is not shown in
  brackets: both count as false in \<^verbatim>\<open>_make_prompt\<close>.
\<close>

theorem make_prompt_counterexample:
  "make_prompt str_bool id (Some '''') None \<noteq> ''''
   \<and> make_prompt int_bool str_int None (Some 0) \<noteq> ''[0]? ''"
  by (simp add: make_prompt_def PROMPT_def int_bool_def)

text \<open>
  C5, amended. A non-empty prompt string given by the caller is used as it is. With no
  prompt, or an empty one, a default that is set and counts as true (a non-empty string, a
  number other than zero) gives \<^verbatim>\<open>[<default>]? \<close>, and no default gives the constant
  \<^verbatim>\<open>? \<close>.
\<close>

theorem make_prompt_text:
  "make_prompt truthy str (Some (c # cs)) dflt = c # cs
   \<and> (prompt = None \<or> prompt = Some [] \<longrightarrow>
        (truthy d \<longrightarrow> make_prompt truthy str prompt (Some d) = ''['' @ str d @ '']? '')
        \<and> make_prompt truthy str prompt None = ''? '')"
  by (auto simp: make_prompt_def PROMPT_def)

theorem make_prompt_text_witness:
  "make_prompt int_bool str_int (Some (CHR ''>'' # '' '')) (Some 7) = CHR ''>'' # '' ''
   \<and> (None = None \<or> None = Some [])
   \<and> int_bool 7
   \<and> make_prompt int_bool str_int None (Some 7) = ''[7]? ''
   \<and> make_prompt int_bool str_int None None = ''? ''"
proof -
  have n: "str_nat 7 = ''7''"
    by (simp add: str_nat.simps digit_def)
  show ?thesis
    using make_prompt_text [of int_bool str_int "CHR ''>''" "'' ''" "Some 7" None 7]
    by (simp add: int_bool_def str_int_def n)
qed

subsection \<open>Invalid arguments\<close>

text \<open>
  C6. \<^verbatim>\<open>choice\<close> on no choices and \<^verbatim>\<open>email\<close> with a mode other than
  \<^verbatim>\<open>simple\<close> raise \<^verbatim>\<open>ValueError\<close> at once: the terminal is as it was, nothing
  written and nothing read, and there is no further call.
\<close>

theorem invalid_argument_before_io:
  "choice py_int [] instruction prompt empty_ok dflt w = (Inl ValueError, w)
   \<and> (mode \<noteq> ''simple'' \<longrightarrow>
        email re_match prompt' empty_ok' mode dflt' w = (Inl ValueError, w))"
  by (simp add: choice.simps [of _ "[]"] email.simps)

theorem invalid_argument_before_io_witness:
  "choice plain_int [] ''Pick: '' None True (Some ''x'') \<lparr>stdin = [''a@b.c''], stdout = []\<rparr> =
     (Inl ValueError, \<lparr>stdin = [''a@b.c''], stdout = []\<rparr>)
   \<and> ''full'' \<noteq> ''simple''
   \<and> email literal_match None True ''full'' (Some ''a@b.c'') \<lparr>stdin = [''a@b.c''], stdout = []\<rparr> =
       (Inl ValueError, \<lparr>stdin = [''a@b.c''], stdout = []\<rparr>)"
  using invalid_argument_before_io [of plain_int "''Pick: ''" None True "Some ''x''"
      "\<lparr>stdin = [''a@b.c''], stdout = []\<rparr>" "''full''" literal_match None True "Some ''a@b.c''"]
  by simp

subsection \<open>The index read by \<^verbatim>\<open>choice\<close>\<close>

text \<open>
  C7. On \<open>n\<close> choices, \<open>n > 0\<close>, a non-empty line is accepted exactly when \<^verbatim>\<open>int\<close>
  reads it as a number \<open>i\<close> with \<open>1 \<le> i \<le> n\<close>, and then the choice at position
  \<open>i - 1\<close> is returned. Any other non-empty line leads to a further call of \<^verbatim>\<open>choice\<close>,
  which writes the instruction and the numbered choices again.
\<close>

theorem choice_accepts_index:
  assumes "choices \<noteq> []" and "stdin w = s # rest" and "s \<noteq> []"
  shows "(let w' = \<lparr>stdin = rest,
                 stdout = stdout w @ instruction # map choice_line (enumerate 0 choices)
                            @ [make_prompt str_bool id prompt dflt]\<rparr>;
              again = choice py_int choices instruction prompt empty_ok None w' in
          choice py_int choices instruction prompt empty_ok dflt w =
            (case py_int s of
               Some i \<Rightarrow>
                 if 1 \<le> i \<and> i \<le> int (length choices)
                 then (Inr (Some (choices ! nat (i - 1))), w')
                 else again
             | None \<Rightarrow> again)
          \<and> prefix (stdout w' @ instruction # map choice_line (enumerate 0 choices))
               (stdout (snd again)))"
  using assms
  by (simp add: choice_line_step choice_shows_menu pick_def Let_def split: option.splits)

theorem choice_accepts_index_witness:
  "[''moe'', ''curly'', ''larry''] \<noteq> []
   \<and> stdin \<lparr>stdin = [''4'', ''2''], stdout = []\<rparr> = ''4'' # [''2'']
   \<and> ''4'' \<noteq> []
   \<and> choice plain_int [''moe'', ''curly'', ''larry''] ''Pick: '' None False None
         \<lparr>stdin = [''4'', ''2''], stdout = []\<rparr> =
       choice plain_int [''moe'', ''curly'', ''larry''] ''Pick: '' None False None
         \<lparr>stdin = [''2''],
            stdout = [''Pick: '', ''    1: moe'', ''    2: curly'', ''    3: larry'', ''? '']\<rparr>"
proof -
  have h1: "[''moe'', ''curly'', ''larry''] \<noteq> []" by simp
  have h2: "stdin \<lparr>stdin = [''4'', ''2''], stdout = []\<rparr> = ''4'' # [''2'']" by simp
  have h3: "''4'' \<noteq> []" by simp
  have e: "enumerate 0 [''moe'', ''curly'', ''larry''] =
             [(0, ''moe''), (Suc 0, ''curly''), (2, ''larry'')]"
    by (simp add: enumerate_eq_zip upt_rec)
  have n: "str_nat (Suc 0) = ''1''" "str_nat 2 = ''2''" "str_nat 3 = ''3''"
    by (simp_all add: str_nat.simps digit_def)
  have p: "plain_int ''4'' = Some 4"
    by (simp add: digit_value_def upt_rec)
  show ?thesis
    using h1 h2 h3
      choice_accepts_index [OF h1 h2 h3, where instruction = "''Pick: ''" and prompt = None
        and dflt = None and py_int = plain_int and empty_ok = False]
    by (simp add: Let_def e n p choice_line_def str_int_def make_prompt_def PROMPT_def
          del: plain_int.simps)
qed

subsection \<open>Prefixes of the yes and no tokens\<close>

text \<open>
  C8. With \<^verbatim>\<open>partial\<close> true and a non-empty line, \<^verbatim>\<open>boolean\<close> returns \<^verbatim>\<open>True\<close>
  when the yes token starts with the line, both lowered unless \<^verbatim>\<open>sensitive\<close> is set;
  only otherwise is the no token tried, so a line that both tokens start with gives
  \<^verbatim>\<open>True\<close>; a line that neither starts with leads to a further call with the same
  parameters. The examples: \<^verbatim>\<open>N\<close> against the tokens \<^verbatim>\<open>no\<close> and \<^verbatim>\<open>nope\<close>;
  \<^verbatim>\<open>n\<close> against \<^verbatim>\<open>yes\<close> and \<^verbatim>\<open>no\<close>; with \<^verbatim>\<open>sensitive\<close> set, \<^verbatim>\<open>y\<close>
  rejected and \<^verbatim>\<open>Y\<close> accepted for the token \<^verbatim>\<open>Y\<close>; and \<^verbatim>\<open>yess\<close>, which
  \<^verbatim>\<open>yes\<close> does not start with, rejected before \<^verbatim>\<open>YE\<close> is accepted.
\<close>

theorem boolean_prefix_match:
  assumes "stdin w = s # rest" and "s \<noteq> []"
  shows "boolean lower prompt yes no dflt sensitive True w =
     (let w' = \<lparr>stdin = rest, stdout = stdout w @ [boolean_prompt prompt yes no dflt]\<rparr>;
          y = (if sensitive then yes else lower yes);
          n = (if sensitive then no else lower no);
          c = (if sensitive then s else lower s) in
      if prefix c y then (Inr (Some True), w')
      else if prefix c n then (Inr (Some False), w')
      else boolean lower prompt yes no dflt sensitive True w')"
  using assms by (simp add: boolean_line to_bool_def norm_def startswith_def Let_def)

theorem boolean_prefix_match_witness:
  "stdin \<lparr>stdin = [''N''], stdout = []\<rparr> = ''N'' # []
   \<and> ''N'' \<noteq> []
   \<and> boolean ascii_lower None ''no'' ''nope'' None False True \<lparr>stdin = [''N''], stdout = []\<rparr> =
       (Inr (Some True), \<lparr>stdin = [], stdout = [''no/nope? '']\<rparr>)
   \<and> boolean ascii_lower None ''yes'' ''no'' None False True \<lparr>stdin = [''n''], stdout = []\<rparr> =
       (Inr (Some False), \<lparr>stdin = [], stdout = [''yes/no? '']\<rparr>)
   \<and> boolean ascii_lower None ''Y'' ''N'' None True True \<lparr>stdin = [''y'', ''Y''], stdout = []\<rparr> =
       (Inr (Some True), \<lparr>stdin = [], stdout = [''Y/N? '', ''Y/N? '']\<rparr>)
   \<and> boolean ascii_lower None ''yes'' ''no'' None False True
         \<lparr>stdin = [''yess'', ''YE''], stdout = []\<rparr> =
       (Inr (Some True), \<lparr>stdin = [], stdout = [''yes/no? '', ''yes/no? '']\<rparr>)"
proof -
  note step = boolean_prefix_match [where lower = ascii_lower and prompt = None and dflt = None]
  have both: "boolean ascii_lower None ''no'' ''nope'' None False True
                \<lparr>stdin = [''N''], stdout = []\<rparr> =
              (Inr (Some True), \<lparr>stdin = [], stdout = [''no/nope? '']\<rparr>)"
    using step [where w = "\<lparr>stdin = [''N''], stdout = []\<rparr>" and s = "''N''" and rest = "[]"
        and yes = "''no''" and no = "''nope''" and sensitive = False]
    by (simp add: boolean_prompt_def ascii_lower_def)
  have no: "boolean ascii_lower None ''yes'' ''no'' None False True
              \<lparr>stdin = [''n''], stdout = []\<rparr> =
            (Inr (Some False), \<lparr>stdin = [], stdout = [''yes/no? '']\<rparr>)"
    using step [where w = "\<lparr>stdin = [''n''], stdout = []\<rparr>" and s = "''n''" and rest = "[]"
        and yes = "''yes''" and no = "''no''" and sensitive = False]
    by (simp add: boolean_prompt_def ascii_lower_def)
  have "boolean ascii_lower None ''Y'' ''N'' None True True
          \<lparr>stdin = [''y'', ''Y''], stdout = []\<rparr> =
        boolean ascii_lower None ''Y'' ''N'' None True True
          \<lparr>stdin = [''Y''], stdout = [''Y/N? '']\<rparr>"
    using step [where w = "\<lparr>stdin = [''y'', ''Y''], stdout = []\<rparr>" and s = "''y''"
        and rest = "[''Y'']" and yes = "''Y''" and no = "''N''" and sensitive = True]
    by (simp add: boolean_prompt_def)
  also have "\<dots> = (Inr (Some True), \<lparr>stdin = [], stdout = [''Y/N? '', ''Y/N? '']\<rparr>)"
    using step [where w = "\<lparr>stdin = [''Y''], stdout = [''Y/N? '']\<rparr>" and s = "''Y''"
        and rest = "[]" and yes = "''Y''" and no = "''N''" and sensitive = True]
    by (simp add: boolean_prompt_def)
  finally have sens: "boolean ascii_lower None ''Y'' ''N'' None True True
          \<lparr>stdin = [''y'', ''Y''], stdout = []\<rparr> =
        (Inr (Some True), \<lparr>stdin = [], stdout = [''Y/N? '', ''Y/N? '']\<rparr>)" .
  have "boolean ascii_lower None ''yes'' ''no'' None False True
          \<lparr>stdin = [''yess'', ''YE''], stdout = []\<rparr> =
        boolean ascii_lower None ''yes'' ''no'' None False True
          \<lparr>stdin = [''YE''], stdout = [''yes/no? '']\<rparr>"
    using step [where w = "\<lparr>stdin = [''yess'', ''YE''], stdout = []\<rparr>" and s = "''yess''"
        and rest = "[''YE'']" and yes = "''yes''" and no = "''no''" and sensitive = False]
    by (simp add: boolean_prompt_def ascii_lower_def)
  also have "\<dots> = (Inr (Some True), \<lparr>stdin = [], stdout = [''yes/no? '', ''yes/no? '']\<rparr>)"
    using step [where w = "\<lparr>stdin = [''YE''], stdout = [''yes/no? '']\<rparr>" and s = "''YE''"
        and rest = "[]" and yes = "''yes''" and no = "''no''" and sensitive = False]
    by (simp add: boolean_prompt_def ascii_lower_def)
  finally have longer: "boolean ascii_lower None ''yes'' ''no'' None False True
          \<lparr>stdin = [''yess'', ''YE''], stdout = []\<rparr> =
        (Inr (Some True), \<lparr>stdin = [], stdout = [''yes/no? '', ''yes/no? '']\<rparr>)" .
  show ?thesis
    using both no sens longer by simp
qed

subsection \<open>\<^verbatim>\<open>regex\<close> on an empty line without a default\<close>

text \<open>
  C9. With no default and \<^verbatim>\<open>empty\<close> false, \<^verbatim>\<open>regex\<close> matches the empty line itself
  against the pattern: a match is returned as the result, and only when there is none
  does the call start again.
\<close>

theorem regex_empty_line_is_matched:
  assumes "stdin w = [] # rest"
  shows "regex re_match pattern prompt False flags None w =
     (let w' = \<lparr>stdin = rest, stdout = stdout w @ [make_prompt str_bool id prompt None]\<rparr> in
      case re_match pattern [] flags of
        Some m \<Rightarrow> (Inr (Some m), w')
      | None \<Rightarrow> regex re_match pattern prompt False flags None w')"
  using assms by (simp add: regex_line Let_def)

theorem regex_empty_line_is_matched_witness:
  "stdin \<lparr>stdin = ['''', ''x''], stdout = []\<rparr> = [] # [''x'']
   \<and> regex literal_match '''' None False 0 None \<lparr>stdin = ['''', ''x''], stdout = []\<rparr> =
       (Inr (Some ''''), \<lparr>stdin = [''x''], stdout = [''? '']\<rparr>)"
proof -
  have h: "stdin \<lparr>stdin = ['''', ''x''], stdout = []\<rparr> = [] # [''x'']" by simp
  show ?thesis
    using h regex_empty_line_is_matched [OF h, of literal_match "[]" None 0]
    by (simp add: literal_match_def make_prompt_def PROMPT_def)
qed

subsection \<open>The default of \<^verbatim>\<open>boolean\<close> after rejected lines\<close>

text \<open>
  C10. After a non-empty line that matches neither token, \<^verbatim>\<open>boolean\<close> goes on as the
  same call, default included, on the rest of the input; so after any number of such
  lines an empty line returns the default, each attempt having shown the same prompt.
\<close>

theorem boolean_default_survives_retries:
  assumes "s \<noteq> []" and "to_bool lower yes no sensitive partial s = Inl ValueError"
    and "\<forall>s \<in> set bad. s \<noteq> [] \<and> to_bool lower yes no sensitive partial s = Inl ValueError"
  shows "boolean lower prompt yes no dflt sensitive partial \<lparr>stdin = s # rest, stdout = out\<rparr> =
         boolean lower prompt yes no dflt sensitive partial
           \<lparr>stdin = rest, stdout = out @ [boolean_prompt prompt yes no dflt]\<rparr>
       \<and> boolean lower prompt yes no (Some d) sensitive partial
           \<lparr>stdin = bad @ [] # rest, stdout = out\<rparr> =
         (Inr (Some d),
          \<lparr>stdin = rest,
             stdout = out @ replicate (Suc (length bad)) (boolean_prompt prompt yes no (Some d))\<rparr>)"
  using assms by (simp add: boolean_line boolean_after_failures)

theorem boolean_default_survives_retries_witness:
  "''maybe'' \<noteq> []
   \<and> to_bool ascii_lower ''yes'' ''no'' False True ''maybe'' = Inl ValueError
   \<and> ''x'' \<noteq> [] \<and> to_bool ascii_lower ''yes'' ''no'' False True ''x'' = Inl ValueError
   \<and> ''Nope'' \<noteq> [] \<and> to_bool ascii_lower ''yes'' ''no'' False True ''Nope'' = Inl ValueError
   \<and> boolean ascii_lower None ''yes'' ''no'' (Some True) False True
         \<lparr>stdin = [''maybe'', ''y''], stdout = []\<rparr> =
       boolean ascii_lower None ''yes'' ''no'' (Some True) False True
         \<lparr>stdin = [''y''], stdout = [''[yes]/no? '']\<rparr>
   \<and> boolean ascii_lower None ''yes'' ''no'' (Some False) False True
         \<lparr>stdin = [''x'', ''Nope'', [], ''y''], stdout = []\<rparr> =
       (Inr (Some False),
        \<lparr>stdin = [''y''], stdout = [''yes/[no]? '', ''yes/[no]? '', ''yes/[no]? '']\<rparr>)"
proof -
  have h1: "''maybe'' \<noteq> []" by simp
  have h2: "to_bool ascii_lower ''yes'' ''no'' False True ''maybe'' = Inl ValueError"
    by (simp add: to_bool_def norm_def startswith_def ascii_lower_def)
  have h3: "\<forall>s \<in> set [''x'', ''Nope'']. s \<noteq> [] \<and>
              to_bool ascii_lower ''yes'' ''no'' False True s = Inl ValueError"
    by (simp add: to_bool_def norm_def startswith_def ascii_lower_def)
  show ?thesis
    using h1 h2 h3
      boolean_default_survives_retries [OF h1 h2 h3, where prompt = None
        and dflt = "Some True" and rest = "[''y'']" and out = "[]" and d = False]
    by (simp add: boolean_prompt_def numeral_3_eq_3)
qed

end
